theory Spec2Isabelle
  imports Main
begin

section \<open>The chat client: typing indicator (script.js)\<close>

text \<open>
  The client keeps the names of the users that are typing in a JavaScript \<^verbatim>\<open>Set\<close>,
  which iterates in insertion order and ignores the insertion of a member it already
  holds. It is modelled as a list without repetition: \<open>set_add\<close> appends a new
  member at the end, \<open>set_delete\<close> removes it.
\<close>

definition set_add :: "'a \<Rightarrow> 'a list \<Rightarrow> 'a list" where
  "set_add x xs = (if x \<in> set xs then xs else xs @ [x])"

definition set_delete :: "'a \<Rightarrow> 'a list \<Rightarrow> 'a list" where
  "set_delete x xs = filter (\<lambda>y. y \<noteq> x) xs"

text \<open>
  The part of \<^verbatim>\<open>ChatApp\<close> that the typing indicator reads and writes: the id of
  the current user (absent before login), the set of typers, whether the indicator
  element carries the class \<^verbatim>\<open>hidden\<close>, and its text.
\<close>

record chat_app =
  currentUser :: "string option"
  typingUsers :: "string list"
  indicatorHidden :: bool
  typingText :: string

text \<open>
  A template literal prints a number in decimal; \<open>digit_char\<close> is only applied to
  numbers below ten.
\<close>

definition digit_char :: "nat \<Rightarrow> char" where
  "digit_char d = ''0123456789'' ! d"

function decimal :: "nat \<Rightarrow> string" where
  "decimal n = (if n < 10 then [digit_char n] else decimal (n div 10) @ [digit_char (n mod 10)])"
  by pat_completeness auto
termination
  by (relation "measure id") auto

declare decimal.simps [simp del]

text \<open>
  \<^verbatim>\<open>updateTypingDisplay\<close>: with no typer the indicator is hidden and its text is left
  as it was; otherwise the text is built from the first two members of the set and
  the number of the others.
\<close>

definition updateTypingDisplay :: "chat_app \<Rightarrow> chat_app" where
  "updateTypingDisplay app =
     (case typingUsers app of
        [] \<Rightarrow> app\<lparr>indicatorHidden := True\<rparr>
      | [x] \<Rightarrow> app\<lparr>typingText := x @ '' is typing...'', indicatorHidden := False\<rparr>
      | [x, y] \<Rightarrow>
          app\<lparr>typingText := x @ '' and '' @ y @ '' are typing...'', indicatorHidden := False\<rparr>
      | x # y # rest \<Rightarrow>
          app\<lparr>typingText := x @ '', '' @ y @ '' and ''
                   @ decimal (length (typingUsers app) - 2) @ '' others are typing...'',
              indicatorHidden := False\<rparr>)"

text \<open>
  \<^verbatim>\<open>handleTypingIndicator\<close>: an event about the current user is dropped; any other
  one adds or removes the name and refreshes the display.
\<close>

definition handleTypingIndicator :: "string \<Rightarrow> string \<Rightarrow> bool \<Rightarrow> chat_app \<Rightarrow> chat_app" where
  "handleTypingIndicator uid uname typing app =
     (if currentUser app = Some uid then app
      else updateTypingDisplay
             (app\<lparr>typingUsers := (if typing then set_add uname (typingUsers app)
                                   else set_delete uname (typingUsers app))\<rparr>))"

section \<open>The chat server: data (server.js, models/Room.js, models/Message.js, models/User.js)\<close>

text \<open>
  A JavaScript string is a sequence of UTF-16 code units, and \<^verbatim>\<open>length\<close> counts them.
  A code unit is a number (below 65536, which nothing here depends on). \<open>js\<close> turns
  a literal of the theory into such a string.
\<close>

type_synonym js_string = "nat list"

definition js :: "string \<Rightarrow> js_string" where
  "js s = map of_char s"

text \<open>
  A socket is known by its id, a string that Socket.IO also uses as the name of a
  room; time is the value of \<^verbatim>\<open>new Date()\<close>, handed to every handler by its caller.
\<close>

type_synonym sid = js_string
type_synonym time = nat

text \<open>The entry that \<^verbatim>\<open>join-room\<close> stores in \<^verbatim>\<open>activeUsers\<close> for a socket.\<close>

record session =
  userId :: js_string
  username :: js_string
  roomId :: js_string
  joinedAt :: time

text \<open>
  \<^verbatim>\<open>activeUsers\<close> is a JavaScript \<^verbatim>\<open>Map\<close>: an association list in insertion order
  with one entry for a key. \<^verbatim>\<open>set\<close> overwrites the value of a key in place or
  appends a new entry, \<^verbatim>\<open>delete\<close> removes the entry, \<^verbatim>\<open>get\<close> reads it.
\<close>

fun Map_set :: "'k \<Rightarrow> 'v \<Rightarrow> ('k \<times> 'v) list \<Rightarrow> ('k \<times> 'v) list" where
  "Map_set k v [] = [(k, v)]"
| "Map_set k v (e # m) = (if fst e = k then (k, v) # m else e # Map_set k v m)"

definition Map_delete :: "'k \<Rightarrow> ('k \<times> 'v) list \<Rightarrow> ('k \<times> 'v) list" where
  "Map_delete k m = filter (\<lambda>e. fst e \<noteq> k) m"

definition Map_get :: "('k \<times> 'v) list \<Rightarrow> 'k \<Rightarrow> 'v option" where
  "Map_get m k = map_of m k"

text \<open>
  The documents of the three collections, with the fields that the socket handlers
  and the room methods read or write. The \<^verbatim>\<open>_id\<close> of a user is an ObjectId, written
  as its 24 hexadecimal digits in lower case; the id of a message stands for the
  \<^verbatim>\<open>_id\<close> that the store assigns to it.
\<close>

type_synonym oid = js_string

record user_doc =
  u_id :: oid
  u_userId :: js_string
  u_username :: js_string
  isOnline :: bool
  lastSeen :: time
  socketId :: "sid option"

record room_doc =
  r_roomId :: js_string
  r_name :: js_string
  createdBy :: js_string
  participants :: "js_string list"
  admins :: "js_string list"
  maxParticipants :: nat

record message_doc =
  messageId :: nat
  content :: js_string
  sender :: js_string
  m_roomId :: "js_string option"
  recipient :: "js_string option"
  m_type :: js_string
  timestamp :: time
  deleted :: bool

text \<open>
  The state of the server: the sockets that are connected, the session map, the rooms
  of the Socket.IO adapter (the sockets that \<^verbatim>\<open>to(room)\<close> reaches), and the three
  collections of the store.
\<close>

record server =
  connected :: "sid set"
  activeUsers :: "(sid \<times> session) list"
  rooms :: "js_string \<Rightarrow> sid set"
  users :: "user_doc list"
  roomDocs :: "js_string \<Rightarrow> room_doc option"
  messages :: "message_doc list"

definition init :: server where
  "init = \<lparr>connected = {}, activeUsers = [], rooms = (\<lambda>r. {}), users = [],
           roomDocs = Map.empty, messages = []\<rparr>"

text \<open>
  What the server emits. An emission is an event together with the sockets it is
  addressed to: \<^verbatim>\<open>socket.emit\<close> addresses the socket itself, \<^verbatim>\<open>io.to(room)\<close> the
  sockets of the room, and \<^verbatim>\<open>socket.to(room)\<close> the sockets of the room but the
  socket itself. A populated sender is the pair of its \<^verbatim>\<open>username\<close> and its
  \<^verbatim>\<open>userId\<close>, or \<open>None\<close> for \<^verbatim>\<open>null\<close>.
\<close>

type_synonym online_user = "js_string \<times> js_string \<times> time"
type_synonym populated = "(js_string \<times> js_string) option"

datatype event =
    Error string
  | RecentMessages "(message_doc \<times> populated) list"
  | UserJoined js_string js_string js_string
  | UsersUpdate "online_user list"
  | JoinSuccess js_string js_string "online_user list"
  | ReceiveMessage nat js_string js_string js_string time js_string
  | UserTyping js_string js_string bool
  | PrivateMessage nat js_string js_string js_string time
  | MessageSent nat
  | UserLeft js_string js_string js_string

type_synonym emission = "sid set \<times> event"

text \<open>
  Every \<^verbatim>\<open>await\<close> on the store can throw for reasons outside the program (the
  database is unreachable). The caller of a handler names the calls that do.
\<close>

datatype store_call =
    UserUpsert | RoomFind | RoomCreate | ParticipantSave | MessageFind
  | MessageSave | SenderPopulate | UserUpdate

subsection \<open>Strings\<close>

text \<open>
  \<^verbatim>\<open>String.prototype.trim\<close> removes white space and line terminators at both ends:
  tab, line feed, vertical tab, form feed, carriage return, space, no-break space,
  U+1680, U+2000 to U+200A, U+2028, U+2029, U+202F, U+205F, U+3000 and U+FEFF.
\<close>

definition js_space :: "nat \<Rightarrow> bool" where
  "js_space c =
     (c \<in> set [0x09, 0x0A, 0x0B, 0x0C, 0x0D, 0x20, 0xA0, 0x1680, 0x2028, 0x2029, 0x202F,
               0x205F, 0x3000, 0xFEFF]
      \<or> (0x2000 \<le> c \<and> c \<le> 0x200A))"

definition js_trim :: "js_string \<Rightarrow> js_string" where
  "js_trim s = rev (dropWhile js_space (rev (dropWhile js_space s)))"

subsection \<open>The user model (models/User.js)\<close>

text \<open>
  Mongoose casts a string to an ObjectId when it consists of 24 hexadecimal digits;
  any other string is a cast error (\<open>None\<close>).
\<close>

definition hex_digit :: "nat \<Rightarrow> bool" where
  "hex_digit c = ((48 \<le> c \<and> c \<le> 57) \<or> (65 \<le> c \<and> c \<le> 70) \<or> (97 \<le> c \<and> c \<le> 102))"

definition lower_hex :: "nat \<Rightarrow> nat" where
  "lower_hex c = (if 65 \<le> c \<and> c \<le> 70 then c + 32 else c)"

definition castObjectId :: "js_string \<Rightarrow> oid option" where
  "castObjectId s =
     (if length s = 24 \<and> list_all hex_digit s then Some (map lower_hex s) else None)"

fun update_first :: "('a \<Rightarrow> bool) \<Rightarrow> ('a \<Rightarrow> 'a) \<Rightarrow> 'a list \<Rightarrow> 'a list" where
  "update_first P f [] = []"
| "update_first P f (x # xs) = (if P x then f x # xs else x # update_first P f xs)"

text \<open>
  \<^verbatim>\<open>User.findOneAndUpdate({userId}, {username, isOnline: true, lastSeen, socketId},
  {upsert: true, new: true})\<close>: the user of that \<^verbatim>\<open>userId\<close> is updated, or a new
  one is inserted under a new \<^verbatim>\<open>_id\<close>, which the caller supplies and which the
  store refuses (\<open>None\<close>) when another user has it.
\<close>

definition user_upsert ::
  "oid \<Rightarrow> js_string \<Rightarrow> js_string \<Rightarrow> time \<Rightarrow> sid \<Rightarrow> user_doc list \<Rightarrow> user_doc list option" where
  "user_upsert fresh uid uname now s us =
     (if list_ex (\<lambda>u. u_userId u = uid) us
      then Some (update_first (\<lambda>u. u_userId u = uid)
                   (\<lambda>u. u\<lparr>u_username := uname, isOnline := True, lastSeen := now,
                          socketId := Some s\<rparr>) us)
      else if list_ex (\<lambda>u. u_id u = fresh) us then None
      else Some (us @ [\<lparr>u_id = fresh, u_userId = uid, u_username = uname, isOnline = True,
                        lastSeen = now, socketId = Some s\<rparr>]))"

text \<open>
  \<^verbatim>\<open>User.findOneAndUpdate({userId}, {isOnline: false, lastSeen, socketId: null})\<close>
  without \<^verbatim>\<open>upsert\<close> changes the user when the store holds it.
\<close>

definition user_offline :: "js_string \<Rightarrow> time \<Rightarrow> user_doc list \<Rightarrow> user_doc list" where
  "user_offline uid now us =
     update_first (\<lambda>u. u_userId u = uid)
       (\<lambda>u. u\<lparr>isOnline := False, lastSeen := now, socketId := None\<rparr>) us"

text \<open>
  \<^verbatim>\<open>populate('sender', 'username userId')\<close>. The \<^verbatim>\<open>sender\<close> of a message is declared
  \<^verbatim>\<open>{type: String, ref: 'User'}\<close> and holds a \<^verbatim>\<open>userId\<close>; Mongoose resolves the
  reference against the \<^verbatim>\<open>_id\<close> of the users. The string is cast to an ObjectId,
  which throws (outer \<open>None\<close>) unless it has that form; the user of that \<^verbatim>\<open>_id\<close>, or
  \<^verbatim>\<open>null\<close> (inner \<open>None\<close>), takes the place of the string.
\<close>

definition populate_user :: "user_doc list \<Rightarrow> js_string \<Rightarrow> populated option" where
  "populate_user us ref =
     (case castObjectId ref of
        None \<Rightarrow> None
      | Some i \<Rightarrow> Some (map_option (\<lambda>u. (u_username u, u_userId u)) (find (\<lambda>u. u_id u = i) us)))"

text \<open>
  The same for the result of a query: one string that cannot be cast makes the whole
  query throw.
\<close>

definition populate_sender ::
  "user_doc list \<Rightarrow> message_doc list \<Rightarrow> (message_doc \<times> populated) list option" where
  "populate_sender us ms =
     (if list_all (\<lambda>m. castObjectId (sender m) \<noteq> None) ms
      then Some (map (\<lambda>m. (m, case castObjectId (sender m) of
                                 None \<Rightarrow> None
                               | Some i \<Rightarrow> map_option (\<lambda>u. (u_username u, u_userId u))
                                            (find (\<lambda>u. u_id u = i) us))) ms)
      else None)"

subsection \<open>The room model (models/Room.js)\<close>

text \<open>
  \<^verbatim>\<open>new Room({roomId, name, description, createdBy})\<close>: the setters trim the id and the
  name, the lists start empty and \<^verbatim>\<open>settings.maxParticipants\<close> defaults to 100.
\<close>

definition new_Room :: "js_string \<Rightarrow> js_string \<Rightarrow> js_string \<Rightarrow> room_doc" where
  "new_Room rid nm uid =
     \<lparr>r_roomId = js_trim rid, r_name = js_trim nm, createdBy = uid, participants = [],
      admins = [], maxParticipants = 100\<rparr>"

text \<open>The validators of the schema: required strings are not empty, the name has at most 50 characters.\<close>

definition room_valid :: "room_doc \<Rightarrow> bool" where
  "room_valid r =
     (r_roomId r \<noteq> [] \<and> r_name r \<noteq> [] \<and> length (r_name r) \<le> 50 \<and> createdBy r \<noteq> [])"

text \<open>\<^verbatim>\<open>roomSchema.pre('save')\<close>: the creator is pushed to the participants and to the admins.\<close>

definition pre_save :: "room_doc \<Rightarrow> room_doc" where
  "pre_save r =
     (let r1 = (if createdBy r \<in> set (participants r) then r
                else r\<lparr>participants := participants r @ [createdBy r]\<rparr>)
      in if createdBy r1 \<in> set (admins r1) then r1
         else r1\<lparr>admins := admins r1 @ [createdBy r1]\<rparr>)"

text \<open>
  \<^verbatim>\<open>room.save()\<close>: validation, then the hook; \<open>None\<close> is the validation error thrown.
  The result is the document as written to the collection.
\<close>

definition room_save :: "room_doc \<Rightarrow> room_doc option" where
  "room_save r = (if room_valid r then Some (pre_save r) else None)"

text \<open>
  The instance methods that change the participants and the admins. \<open>None\<close> is a
  thrown error. (\<^verbatim>\<open>lastActivity\<close> is not part of the model.)
\<close>

definition addParticipant :: "js_string \<Rightarrow> room_doc \<Rightarrow> room_doc option" where
  "addParticipant uid room =
     (if uid \<notin> set (participants room) then
        (if length (participants room) \<ge> maxParticipants room then None
         else room_save (room\<lparr>participants := participants room @ [uid]\<rparr>))
      else Some room)"

definition removeParticipant :: "js_string \<Rightarrow> room_doc \<Rightarrow> room_doc option" where
  "removeParticipant uid room =
     room_save (room\<lparr>participants := filter (\<lambda>i. i \<noteq> uid) (participants room),
                     admins := filter (\<lambda>i. i \<noteq> uid) (admins room)\<rparr>)"

definition addAdmin :: "js_string \<Rightarrow> room_doc \<Rightarrow> room_doc option" where
  "addAdmin uid room =
     (if uid \<notin> set (participants room) then None
      else if uid \<notin> set (admins room) then room_save (room\<lparr>admins := admins room @ [uid]\<rparr>)
      else Some room)"

definition removeAdmin :: "js_string \<Rightarrow> room_doc \<Rightarrow> room_doc option" where
  "removeAdmin uid room =
     (if uid = createdBy room then None
      else room_save (room\<lparr>admins := filter (\<lambda>i. i \<noteq> uid) (admins room)\<rparr>))"

subsection \<open>The message model (models/Message.js)\<close>

definition message_types :: "js_string list" where
  "message_types = [js ''text'', js ''image'', js ''file'', js ''system'', js ''private'']"

definition present :: "js_string option \<Rightarrow> bool" where
  "present v = (case v of None \<Rightarrow> False | Some x \<Rightarrow> x \<noteq> [])"

text \<open>
  \<^verbatim>\<open>new Message({...})\<close> trims the content. A message is saved when it passes the
  validators of the schema: content and sender required, at most 1000 characters,
  the type one of the enumeration, a room id unless the type is private and a
  recipient when it is. (The \<^verbatim>\<open>pre('save')\<close> hook checks the same three conditions
  again.)
\<close>

definition message_valid :: "message_doc \<Rightarrow> bool" where
  "message_valid m =
     (content m \<noteq> [] \<and> length (content m) \<le> 1000 \<and> sender m \<noteq> []
      \<and> m_type m \<in> set message_types
      \<and> (if m_type m = js ''private'' then present (recipient m) else present (m_roomId m)))"

text \<open>
  \<^verbatim>\<open>message.save()\<close>: \<open>None\<close> when the store throws, either on its own or with a
  validation error; otherwise the message is appended to the collection.
\<close>

definition message_save ::
  "store_call set \<Rightarrow> message_doc \<Rightarrow> server \<Rightarrow> server \<times> message_doc option" where
  "message_save faults m st =
     (let m' = m\<lparr>messageId := length (messages st), content := js_trim (content m)\<rparr>
      in if MessageSave \<in> faults \<or> \<not> message_valid m' then (st, None)
         else (st\<lparr>messages := messages st @ [m']\<rparr>, Some m'))"

text \<open>
  \<^verbatim>\<open>Message.find({roomId}).populate('sender', 'username userId').sort({timestamp: -1})
  .limit(50).lean()\<close>: the 50 newest messages of the room that are not deleted, newest
  first, with their senders populated; \<open>None\<close> when the population throws.
\<close>

definition recent_messages ::
  "js_string \<Rightarrow> server \<Rightarrow> (message_doc \<times> populated) list option" where
  "recent_messages rid st =
     populate_sender (users st)
       (take 50 (rev (sort_key timestamp
          (filter (\<lambda>m. m_roomId m = Some rid \<and> \<not> deleted m) (messages st)))))"

text \<open>
  \<^verbatim>\<open>Message.getPrivateMessages(userId1, userId2, limit)\<close>, the history query of the
  private messages between two users: newest first, at most \<open>limit\<close> of them, with
  their senders populated.
\<close>

definition getPrivateMessages ::
  "js_string \<Rightarrow> js_string \<Rightarrow> nat \<Rightarrow> server \<Rightarrow> (message_doc \<times> populated) list option" where
  "getPrivateMessages userId1 userId2 limit st =
     populate_sender (users st)
       (take limit (rev (sort_key timestamp
          (filter (\<lambda>m. ((sender m = userId1 \<and> recipient m = Some userId2)
                          \<or> (sender m = userId2 \<and> recipient m = Some userId1))
                         \<and> m_type m = js ''private'' \<and> \<not> deleted m) (messages st)))))"

section \<open>The chat server: socket handlers (server.js)\<close>

text \<open>
  Every handler takes the store calls that throw, the time, the socket and the
  payload, and returns the new state with the emissions in the order they are made.
  A handler runs to its end before the next event is handled. A payload is an object
  with string fields, or \<open>None\<close> when the client sent none (\<^verbatim>\<open>undefined\<close>) or
  \<^verbatim>\<open>null\<close>; a field that the client left out is \<open>None\<close>. Fields of other types are
  not part of the model.
\<close>

record join_data =
  j_userId :: "js_string option"
  j_username :: "js_string option"
  j_roomId :: "js_string option"

record send_data =
  s_content :: "js_string option"
  s_type :: "js_string option"

record private_data =
  p_recipientUserId :: "js_string option"
  p_content :: "js_string option"

subsection \<open>Socket.IO\<close>

text \<open>
  A socket that connects is put into the room named by its own id, and a socket that
  closes is taken out of all its rooms before \<^verbatim>\<open>disconnect\<close> is fired.
\<close>

definition connection :: "sid \<Rightarrow> server \<Rightarrow> server" where
  "connection s st =
     st\<lparr>connected := insert s (connected st), rooms := (rooms st)(s := insert s (rooms st s))\<rparr>"

definition leave_all :: "sid \<Rightarrow> server \<Rightarrow> server" where
  "leave_all s st = st\<lparr>connected := connected st - {s}, rooms := (\<lambda>r. rooms st r - {s})\<rparr>"

text \<open>The online users of a room, as computed from the values of \<^verbatim>\<open>activeUsers\<close>.\<close>

definition onlineUsers :: "js_string \<Rightarrow> (sid \<times> session) list \<Rightarrow> online_user list" where
  "onlineUsers rid au =
     map (\<lambda>u. (userId u, username u, joinedAt u)) (filter (\<lambda>u. roomId u = rid) (map snd au))"

subsection \<open>join-room\<close>

text \<open>
  \<^verbatim>\<open>Room.findOne({roomId})\<close> (the query is cast with the setters of the schema), and
  the creation of the room when there is none. The state is returned also when a
  call throws (\<open>None\<close>).
\<close>

definition join_find_or_create ::
  "store_call set \<Rightarrow> js_string \<Rightarrow> js_string \<Rightarrow> server \<Rightarrow> server \<times> room_doc option" where
  "join_find_or_create faults rid uid st =
     (case roomDocs st (js_trim rid) of
        Some room \<Rightarrow> (st, Some room)
      | None \<Rightarrow>
          (if RoomCreate \<in> faults then (st, None)
           else case room_save (new_Room rid (if rid = js ''general'' then js ''General Chat'' else rid) uid) of
                  None \<Rightarrow> (st, None)
                | Some room \<Rightarrow> (st\<lparr>roomDocs := (roomDocs st)(r_roomId room \<mapsto> room)\<rparr>, Some room)))"

text \<open>The user is pushed to the participants of the room unless the list includes it.\<close>

definition join_add_participant ::
  "store_call set \<Rightarrow> js_string \<Rightarrow> room_doc \<Rightarrow> server \<Rightarrow> server \<times> room_doc option" where
  "join_add_participant faults uid room st =
     (if uid \<in> set (participants room) then (st, Some room)
      else if ParticipantSave \<in> faults then (st, None)
      else case room_save (room\<lparr>participants := participants room @ [uid]\<rparr>) of
             None \<Rightarrow> (st, None)
           | Some room' \<Rightarrow> (st\<lparr>roomDocs := (roomDocs st)(r_roomId room' \<mapsto> room')\<rparr>, Some room'))"

text \<open>
  The emissions at the end of a join: the recent messages, oldest first, to the socket
  when there are any, the notice to the others in the room, the list of online users
  to the room, and the success to the socket.
\<close>

definition join_emissions ::
  "sid \<Rightarrow> js_string \<Rightarrow> js_string \<Rightarrow> js_string \<Rightarrow> room_doc
     \<Rightarrow> (message_doc \<times> populated) list \<Rightarrow> server \<Rightarrow> emission list" where
  "join_emissions s uid uname rid room recentMessages st =
     (let ous = onlineUsers rid (activeUsers st)
      in (if recentMessages \<noteq> [] then [({s}, RecentMessages (rev recentMessages))] else [])
         @ [(rooms st rid - {s}, UserJoined uid uname (uname @ js '' joined the chat'')),
            (rooms st rid, UsersUpdate ous),
            ({s}, JoinSuccess rid (r_name room) ous)])"

text \<open>
  The body of the \<^verbatim>\<open>try\<close> block after the session is stored and the socket has
  joined the room: the store calls in their order, then the emissions. \<open>None\<close> is
  a thrown error, on which nothing has been emitted. \<open>fresh\<close> is the \<^verbatim>\<open>_id\<close> that
  a new user would get.
\<close>

definition join_room_store ::
  "store_call set \<Rightarrow> time \<Rightarrow> oid \<Rightarrow> sid \<Rightarrow> js_string \<Rightarrow> js_string \<Rightarrow> js_string \<Rightarrow> server
     \<Rightarrow> server \<times> emission list option" where
  "join_room_store faults now fresh s uid uname rid st =
     (if UserUpsert \<in> faults then (st, None)
      else case user_upsert fresh uid uname now s (users st) of
        None \<Rightarrow> (st, None)
      | Some us \<Rightarrow>
         (let st1 = st\<lparr>users := us\<rparr>
          in if RoomFind \<in> faults then (st1, None)
             else case join_find_or_create faults rid uid st1 of
                    (st2, None) \<Rightarrow> (st2, None)
                  | (st2, Some room0) \<Rightarrow>
                      (case join_add_participant faults uid room0 st2 of
                         (st3, None) \<Rightarrow> (st3, None)
                       | (st3, Some room) \<Rightarrow>
                           (if MessageFind \<in> faults then (st3, None)
                            else case recent_messages rid st3 of
                                   None \<Rightarrow> (st3, None)
                                 | Some recentMessages \<Rightarrow>
                                     (st3, Some (join_emissions s uid uname rid room
                                                   recentMessages st3))))))"

text \<open>
  The destructuring of the payload and its validation: the user id and the name must
  be present and not empty; \<^verbatim>\<open>roomId\<close> defaults to \<^verbatim>\<open>general\<close> when it is left out.
\<close>

definition join_identity :: "join_data \<Rightarrow> (js_string \<times> js_string \<times> js_string) option" where
  "join_identity userData =
     (case (j_userId userData, j_username userData) of
        (Some uid, Some uname) \<Rightarrow>
          (if uid = [] \<or> uname = [] then None
           else Some (uid, uname, case j_roomId userData of None \<Rightarrow> js ''general'' | Some r \<Rightarrow> r))
      | _ \<Rightarrow> None)"

text \<open>
  The handler. Destructuring a payload that is not there throws inside the \<^verbatim>\<open>try\<close>
  block. After the validation the session is stored under the socket id, the socket
  joins the room, and the rest runs against the store. The \<^verbatim>\<open>catch\<close> block emits
  an error to the socket.
\<close>

definition join_room ::
  "store_call set \<Rightarrow> time \<Rightarrow> oid \<Rightarrow> sid \<Rightarrow> join_data option \<Rightarrow> server
     \<Rightarrow> server \<times> emission list" where
  "join_room faults now fresh s payload st =
     (case payload of
        None \<Rightarrow> (st, [({s}, Error ''Failed to join room'')])
      | Some userData \<Rightarrow>
          (case join_identity userData of
             None \<Rightarrow> (st, [({s}, Error ''Invalid user data'')])
           | Some (uid, uname, rid) \<Rightarrow>
               (let st1 = st\<lparr>activeUsers :=
                            Map_set s \<lparr>userId = uid, username = uname, roomId = rid, joinedAt = now\<rparr>
                              (activeUsers st)\<rparr>;
                    st2 = st1\<lparr>rooms := (rooms st1)(rid := insert s (rooms st1 rid))\<rparr>
                in case join_room_store faults now fresh s uid uname rid st2 of
                     (st3, None) \<Rightarrow> (st3, [({s}, Error ''Failed to join room'')])
                   | (st3, Some out) \<Rightarrow> (st3, out))))"

subsection \<open>send-message\<close>

text \<open>
  The store part: the message is saved, its sender is populated, and the message is
  broadcast to the room of the session. A sender that cannot be populated, or that is
  populated with \<^verbatim>\<open>null\<close> (then \<^verbatim>\<open>savedMessage.sender.username\<close> throws), ends the
  handler after the save.
\<close>

definition send_message_store ::
  "store_call set \<Rightarrow> time \<Rightarrow> session \<Rightarrow> js_string \<Rightarrow> js_string \<Rightarrow> server
     \<Rightarrow> server \<times> emission list option" where
  "send_message_store faults now userInfo c ty st =
     (case message_save faults
             \<lparr>messageId = 0, content = c, sender = userId userInfo,
              m_roomId = Some (roomId userInfo), recipient = None, m_type = ty,
              timestamp = now, deleted = False\<rparr> st of
        (st1, None) \<Rightarrow> (st1, None)
      | (st1, Some savedMessage) \<Rightarrow>
          (if SenderPopulate \<in> faults then (st1, None)
           else case populate_user (users st1) (sender savedMessage) of
                  None \<Rightarrow> (st1, None)
                | Some None \<Rightarrow> (st1, None)
                | Some (Some (uname, uid)) \<Rightarrow>
                    (st1, Some [(rooms st1 (roomId userInfo),
                                 ReceiveMessage (messageId savedMessage) (content savedMessage)
                                   uname uid (timestamp savedMessage) (m_type savedMessage))])))"

text \<open>
  The handler: a socket without a session is refused first; then the payload is
  destructured (which throws when there is none), the content is checked, and the
  store part runs.
\<close>

definition send_message ::
  "store_call set \<Rightarrow> time \<Rightarrow> sid \<Rightarrow> send_data option \<Rightarrow> server \<Rightarrow> server \<times> emission list" where
  "send_message faults now s payload st =
     (case Map_get (activeUsers st) s of
        None \<Rightarrow> (st, [({s}, Error ''User not authenticated'')])
      | Some userInfo \<Rightarrow>
          (case payload of
             None \<Rightarrow> (st, [({s}, Error ''Failed to send message'')])
           | Some messageData \<Rightarrow>
               (let ty = (case s_type messageData of None \<Rightarrow> js ''text'' | Some t \<Rightarrow> t)
                in case s_content messageData of
                     None \<Rightarrow> (st, [({s}, Error ''Message content cannot be empty'')])
                   | Some c \<Rightarrow>
                       (if c = [] \<or> length (js_trim c) = 0
                        then (st, [({s}, Error ''Message content cannot be empty'')])
                        else if length c > 1000 then (st, [({s}, Error ''Message too long'')])
                        else case send_message_store faults now userInfo (js_trim c) ty st of
                               (st1, None) \<Rightarrow> (st1, [({s}, Error ''Failed to send message'')])
                             | (st1, Some out) \<Rightarrow> (st1, out)))))"

subsection \<open>typing-start and typing-stop\<close>

text \<open>The two handlers do not read their payload.\<close>

definition typing_start :: "sid \<Rightarrow> server \<Rightarrow> server \<times> emission list" where
  "typing_start s st =
     (case Map_get (activeUsers st) s of
        Some userInfo \<Rightarrow>
          (st, [(rooms st (roomId userInfo) - {s},
                 UserTyping (userId userInfo) (username userInfo) True)])
      | None \<Rightarrow> (st, []))"

definition typing_stop :: "sid \<Rightarrow> server \<Rightarrow> server \<times> emission list" where
  "typing_stop s st =
     (case Map_get (activeUsers st) s of
        Some userInfo \<Rightarrow>
          (st, [(rooms st (roomId userInfo) - {s},
                 UserTyping (userId userInfo) (username userInfo) False)])
      | None \<Rightarrow> (st, []))"

subsection \<open>private-message\<close>

text \<open>
  The store part: a message without content fails the validation; otherwise it is
  saved, its sender is populated, and it is sent to the room named by the id of the
  recipient's socket and confirmed to the sender.
\<close>

definition private_message_store ::
  "store_call set \<Rightarrow> time \<Rightarrow> sid \<Rightarrow> session \<Rightarrow> sid \<Rightarrow> private_data \<Rightarrow> server
     \<Rightarrow> server \<times> emission list option" where
  "private_message_store faults now s senderInfo recipientSocketId data st =
     (case p_content data of
        None \<Rightarrow> (st, None)
      | Some c \<Rightarrow>
         (case message_save faults
                 \<lparr>messageId = 0, content = c, sender = userId senderInfo,
                  m_roomId = None, recipient = p_recipientUserId data,
                  m_type = js ''private'', timestamp = now, deleted = False\<rparr> st of
            (st1, None) \<Rightarrow> (st1, None)
          | (st1, Some privateMessage) \<Rightarrow>
              (if SenderPopulate \<in> faults then (st1, None)
               else case populate_user (users st1) (sender privateMessage) of
                      None \<Rightarrow> (st1, None)
                    | Some None \<Rightarrow> (st1, None)
                    | Some (Some (uname, uid)) \<Rightarrow>
                        (st1, Some [(rooms st1 recipientSocketId,
                                     PrivateMessage (messageId privateMessage)
                                       (content privateMessage) uname uid
                                       (timestamp privateMessage)),
                                    ({s}, MessageSent (messageId privateMessage))]))))"

text \<open>
  The handler destructures the payload before it looks for the session of the sender,
  so a payload that is not there throws whatever the socket is. The recipient is the
  first entry of \<^verbatim>\<open>activeUsers\<close> with the user id; without one the sender is told
  that the user is offline and nothing else is done.
\<close>

definition private_message ::
  "store_call set \<Rightarrow> time \<Rightarrow> sid \<Rightarrow> private_data option \<Rightarrow> server \<Rightarrow> server \<times> emission list" where
  "private_message faults now s payload st =
     (case payload of
        None \<Rightarrow> (st, [({s}, Error ''Failed to send private message'')])
      | Some data \<Rightarrow>
          (case Map_get (activeUsers st) s of
             None \<Rightarrow> (st, [])
           | Some senderInfo \<Rightarrow>
               (case find (\<lambda>e. Some (userId (snd e)) = p_recipientUserId data) (activeUsers st) of
                  Some recipientSocket \<Rightarrow>
                    (case private_message_store faults now s senderInfo (fst recipientSocket) data st of
                       (st1, None) \<Rightarrow> (st1, [({s}, Error ''Failed to send private message'')])
                     | (st1, Some out) \<Rightarrow> (st1, out))
                | None \<Rightarrow> (st, [({s}, Error ''User is offline'')]))))"

subsection \<open>disconnect\<close>

text \<open>
  The handler. An error of the store is caught and logged: nothing is emitted and the
  statements after the call are not run.
\<close>

definition on_disconnect ::
  "store_call set \<Rightarrow> time \<Rightarrow> sid \<Rightarrow> server \<Rightarrow> server \<times> emission list" where
  "on_disconnect faults now s st =
     (case Map_get (activeUsers st) s of
        None \<Rightarrow> (st, [])
      | Some userInfo \<Rightarrow>
          (if UserUpdate \<in> faults then (st, [])
           else
             let st1 = st\<lparr>users := user_offline (userId userInfo) now (users st)\<rparr>;
                 st2 = st1\<lparr>activeUsers := Map_delete s (activeUsers st1)\<rparr>;
                 ous = onlineUsers (roomId userInfo) (activeUsers st2)
             in (st2, [(rooms st2 (roomId userInfo) - {s},
                          UserLeft (userId userInfo) (username userInfo)
                            (username userInfo @ js '' left the chat'')),
                       (rooms st2 (roomId userInfo) - {s}, UsersUpdate ous)])))"

text \<open>The event as the server sees it: the socket has left its rooms when the handler runs.\<close>

definition disconnect ::
  "store_call set \<Rightarrow> time \<Rightarrow> sid \<Rightarrow> server \<Rightarrow> server \<times> emission list" where
  "disconnect faults now s st = on_disconnect faults now s (leave_all s st)"

subsection \<open>Sequences of events\<close>

datatype inbound =
    Connection
  | JoinRoom "join_data option"
  | SendMessage "send_data option"
  | TypingStart
  | TypingStop
  | PrivateMsg "private_data option"
  | Disconnect

text \<open>
  An input is an event on a socket, with the time, the store calls that throw and the
  \<^verbatim>\<open>_id\<close> that the store would give to a new user.
\<close>

record input =
  in_faults :: "store_call set"
  in_time :: time
  in_oid :: oid
  in_socket :: sid
  in_event :: inbound

definition handle :: "input \<Rightarrow> server \<Rightarrow> server \<times> emission list" where
  "handle i st =
     (case in_event i of
        Connection \<Rightarrow> (connection (in_socket i) st, [])
      | JoinRoom d \<Rightarrow> join_room (in_faults i) (in_time i) (in_oid i) (in_socket i) d st
      | SendMessage d \<Rightarrow> send_message (in_faults i) (in_time i) (in_socket i) d st
      | TypingStart \<Rightarrow> typing_start (in_socket i) st
      | TypingStop \<Rightarrow> typing_stop (in_socket i) st
      | PrivateMsg d \<Rightarrow> private_message (in_faults i) (in_time i) (in_socket i) d st
      | Disconnect \<Rightarrow> disconnect (in_faults i) (in_time i) (in_socket i) st)"

fun run :: "server \<Rightarrow> input list \<Rightarrow> server" where
  "run st [] = st"
| "run st (i # is) = run (fst (handle i st)) is"

text \<open>
  The sockets with a session in a room (the entries of \<^verbatim>\<open>activeUsers\<close> whose
  \<^verbatim>\<open>roomId\<close> is the room), to be compared with the sockets of the room in the adapter.
\<close>

definition sessions_in :: "server \<Rightarrow> js_string \<Rightarrow> sid set" where
  "sessions_in st rid = set (map fst (filter (\<lambda>e. roomId (snd e) = rid) (activeUsers st)))"

text \<open>The connected socket, if any, whose own id is the name of the room.\<close>

definition own_room :: "server \<Rightarrow> js_string \<Rightarrow> sid set" where
  "own_room st rid = (if rid \<in> connected st then {rid} else {})"

subsection \<open>Sequences in which no socket changes its room\<close>

text \<open>
  A join is in place when the socket has no session, when the payload is rejected, or
  when it names the room of the session that the socket has.
\<close>

definition join_same_room :: "join_data option \<Rightarrow> session option \<Rightarrow> bool" where
  "join_same_room payload cur =
     (case cur of
        None \<Rightarrow> True
      | Some u \<Rightarrow>
          (case payload of
             None \<Rightarrow> True
           | Some d \<Rightarrow>
               (case join_identity d of None \<Rightarrow> True | Some (uid, uname, rid) \<Rightarrow> rid = roomId u)))"

text \<open>
  An input is allowed in a state when it is a join in place, a disconnect whose update
  of the user does not throw (or of a socket without a session), or any other event.
\<close>

definition allowed :: "input \<Rightarrow> server \<Rightarrow> bool" where
  "allowed i st =
     (case in_event i of
        JoinRoom d \<Rightarrow> join_same_room d (Map_get (activeUsers st) (in_socket i))
      | Disconnect \<Rightarrow> Map_get (activeUsers st) (in_socket i) = None \<or> UserUpdate \<notin> in_faults i
      | _ \<Rightarrow> True)"

fun well_behaved :: "server \<Rightarrow> input list \<Rightarrow> bool" where
  "well_behaved st [] = True"
| "well_behaved st (i # is) = (allowed i st \<and> well_behaved (fst (handle i st)) is)"

text \<open>
  The invariant of such sequences: one entry for a socket in \<^verbatim>\<open>activeUsers\<close>, and a
  socket is in a room of the adapter exactly when the room is the one of its own id,
  the socket being connected, or the one that its session names.
\<close>

definition registry_ok :: "server \<Rightarrow> bool" where
  "registry_ok st =
     (distinct (map fst (activeUsers st))
      \<and> (\<forall>s rid. (s \<in> rooms st rid)
             = (rid = s \<and> s \<in> connected st
                \<or> (\<exists>u. Map_get (activeUsers st) s = Some u \<and> roomId u = rid))))"

text \<open>
  A weaker invariant holds whatever rooms the sockets join, as long as no disconnect of
  a socket with a session is cut short by the store: the socket of a session is in the
  room that the session names.
\<close>

definition sockets_in_rooms :: "server \<Rightarrow> bool" where
  "sockets_in_rooms st =
     (\<forall>s u. Map_get (activeUsers st) s = Some u \<longrightarrow> s \<in> rooms st (roomId u))"

definition disconnect_completes :: "input \<Rightarrow> server \<Rightarrow> bool" where
  "disconnect_completes i st =
     (in_event i \<noteq> Disconnect \<or> Map_get (activeUsers st) (in_socket i) = None
      \<or> UserUpdate \<notin> in_faults i)"

fun disconnects_complete :: "server \<Rightarrow> input list \<Rightarrow> bool" where
  "disconnects_complete st [] = True"
| "disconnects_complete st (i # is) =
     (disconnect_completes i st \<and> disconnects_complete (fst (handle i st)) is)"

text \<open>Two states with the same session map, rooms and connected sockets.\<close>

definition same_live :: "server \<Rightarrow> server \<Rightarrow> bool" where
  "same_live st' st =
     (activeUsers st' = activeUsers st \<and> rooms st' = rooms st \<and> connected st' = connected st)"

subsection \<open>Sample inputs\<close>

definition sock1 :: sid where "sock1 = js ''s1''"
definition sock2 :: sid where "sock2 = js ''s2''"
definition sock3 :: sid where "sock3 = js ''s3''"

definition alice_in :: "string \<Rightarrow> join_data" where
  "alice_in rid =
     \<lparr>j_userId = Some (js ''u1''), j_username = Some (js ''alice''), j_roomId = Some (js rid)\<rparr>"

definition bob_in :: "string \<Rightarrow> join_data" where
  "bob_in rid =
     \<lparr>j_userId = Some (js ''u2''), j_username = Some (js ''bob''), j_roomId = Some (js rid)\<rparr>"

definition carol_in :: "string \<Rightarrow> join_data" where
  "carol_in rid =
     \<lparr>j_userId = Some (js ''u3''), j_username = Some (js ''carol''), j_roomId = Some (js rid)\<rparr>"

text \<open>The ObjectId that the store gives to a user created at time \<open>t\<close> (below ten).\<close>

definition sample_oid :: "nat \<Rightarrow> oid" where
  "sample_oid t = js ''65a00000000000000000000'' @ [48 + t]"

definition at_time :: "time \<Rightarrow> sid \<Rightarrow> inbound \<Rightarrow> input" where
  "at_time t s e =
     \<lparr>in_faults = {}, in_time = t, in_oid = sample_oid t, in_socket = s, in_event = e\<rparr>"

text \<open>A room for two, created by \<^verbatim>\<open>u1\<close> and joined by \<^verbatim>\<open>u2\<close>, as the only room of the store.\<close>

definition room_for_two :: room_doc where
  "room_for_two =
     \<lparr>r_roomId = js ''duo'', r_name = js ''Duo'', createdBy = js ''u1'',
      participants = [js ''u1'', js ''u2''], admins = [js ''u1''], maxParticipants = 2\<rparr>"

definition duo_server :: server where
  "duo_server = (connection sock3 init)\<lparr>roomDocs := [js ''duo'' \<mapsto> room_for_two]\<rparr>"

text \<open>
  Two sockets connect; Alice joins room A on the first and Bob joins it on the second;
  then the first socket closes. In the second sequence the first socket joins room A
  and then room B.
\<close>

definition two_join_one_leaves :: "input list" where
  "two_join_one_leaves =
     [at_time 1 sock1 Connection, at_time 2 sock2 Connection,
      at_time 3 sock1 (JoinRoom (Some (alice_in ''A''))),
      at_time 4 sock2 (JoinRoom (Some (bob_in ''A''))),
      at_time 5 sock1 Disconnect]"

definition alice_switches :: "input list" where
  "alice_switches =
     [at_time 1 sock1 Connection, at_time 2 sock1 (JoinRoom (Some (alice_in ''A''))),
      at_time 3 sock1 (JoinRoom (Some (alice_in ''B'')))]"

definition alice_joined :: server where
  "alice_joined =
     fst (join_room {} 1 (sample_oid 1) sock1 (Some (alice_in ''A'')) (connection sock1 init))"

definition both_joined :: server where
  "both_joined =
     fst (join_room {} 2 (sample_oid 2) sock2 (Some (bob_in ''A'')) (connection sock2 alice_joined))"

text \<open>
  A private message to a user without a session, a room id of 51 characters, and
  contents of 1000 and of 1001 characters.
\<close>

definition to_carol :: private_data where
  "to_carol = \<lparr>p_recipientUserId = Some (js ''u3''), p_content = Some (js ''are you there?'')\<rparr>"

definition long_room :: string where
  "long_room = ''room-with-a-name-of-fifty-one-characters-in-all-xyz''"

definition thousand :: js_string where
  "thousand = replicate 1000 97"

definition thousand_one :: js_string where
  "thousand_one = replicate 1001 97"

section \<open>Properties of the session map and of the handlers\<close>

lemma Map_get_set: "Map_get (Map_set k v m) k' = (if k' = k then Some v else Map_get m k')"
  by (induction m) (auto simp: Map_get_def)

lemma Map_get_delete: "Map_get (Map_delete k m) k' = (if k' = k then None else Map_get m k')"
  by (induction m) (auto simp: Map_get_def Map_delete_def)

lemma keys_Map_set: "fst ` set (Map_set k v m) = insert k (fst ` set m)"
  by (induction m) auto

lemma distinct_Map_set: "distinct (map fst m) \<Longrightarrow> distinct (map fst (Map_set k v m))"
  by (induction m) (auto simp: keys_Map_set)

lemma distinct_Map_delete: "distinct (map fst m) \<Longrightarrow> distinct (map fst (Map_delete k m))"
  by (simp add: Map_delete_def distinct_map_filter)

lemma in_sessions_in:
  "distinct (map fst (activeUsers st)) \<Longrightarrow>
     (s \<in> sessions_in st rid) = (\<exists>u. Map_get (activeUsers st) s = Some u \<and> roomId u = rid)"
  by (auto simp: sessions_in_def Map_get_def image_iff dest: map_of_SomeD)

subsection \<open>Trimming\<close>

lemma length_js_trim: "length (js_trim x) \<le> length x"
  unfolding js_trim_def
  by (metis length_dropWhile_le length_rev order_trans)

lemma last_dropWhile_keep: "dropWhile P xs \<noteq> [] \<Longrightarrow> last (dropWhile P xs) = last xs"
  by (metis last_appendR takeWhile_dropWhile_id)

lemma js_trim_idem: "js_trim (js_trim x) = js_trim x"
proof -
  define a where "a = dropWhile js_space x"
  define b where "b = dropWhile js_space (rev a)"
  have t: "js_trim x = rev b" by (simp add: js_trim_def a_def b_def)
  have "js_trim (rev b) = rev b"
  proof (cases "b = []")
    case True
    then show ?thesis by (simp add: js_trim_def)
  next
    case False
    then have hb: "\<not> js_space (hd b)" unfolding b_def by (rule hd_dropWhile)
    from False have a: "a \<noteq> []" by (auto simp: b_def)
    then have ha: "\<not> js_space (hd a)" unfolding a_def by (rule hd_dropWhile)
    have "last b = last (rev a)" using False unfolding b_def by (rule last_dropWhile_keep)
    also have "\<dots> = hd a" using a by (simp add: last_rev)
    finally have "\<not> js_space (hd (rev b))" using ha False by (simp add: hd_rev)
    then have 1: "dropWhile js_space (rev b) = rev b" by (simp add: dropWhile_eq_self_iff)
    have 2: "dropWhile js_space b = b" using hb by (simp add: dropWhile_eq_self_iff)
    show ?thesis by (simp add: js_trim_def 1 2)
  qed
  then show ?thesis unfolding t .
qed

lemma js_trim_replicate: "\<not> js_space c \<Longrightarrow> js_trim (replicate n c) = replicate n c"
  by (simp add: js_trim_def dropWhile_replicate)

subsection \<open>What the handlers leave alone\<close>

text \<open>
  The store calls change neither the session map nor the rooms of the adapter nor the
  set of connected sockets.
\<close>

lemma same_live_refl: "same_live st st"
  by (simp add: same_live_def)

lemma join_find_or_create_live:
  "join_find_or_create f rid uid st = (st', r) \<Longrightarrow> same_live st' st"
  by (auto simp: join_find_or_create_def same_live_def split: option.splits if_splits)

lemma join_add_participant_live:
  "join_add_participant f uid room st = (st', r) \<Longrightarrow> same_live st' st"
  by (auto simp: join_add_participant_def same_live_def split: option.splits if_splits)

lemma join_room_store_live:
  "join_room_store f now fresh s uid uname rid st = (st', r) \<Longrightarrow> same_live st' st"
  by (auto simp: join_room_store_def Let_def same_live_def
        split: option.splits prod.splits if_splits
        dest!: join_find_or_create_live join_add_participant_live)

lemma join_room_live:
  assumes "join_identity d = Some (uid, uname, rid)"
  shows "activeUsers (fst (join_room f now fresh s (Some d) st))
           = Map_set s \<lparr>userId = uid, username = uname, roomId = rid, joinedAt = now\<rparr> (activeUsers st)"
    and "rooms (fst (join_room f now fresh s (Some d) st)) = (rooms st)(rid := insert s (rooms st rid))"
    and "connected (fst (join_room f now fresh s (Some d) st)) = connected st"
  using assms
  by (auto simp: join_room_def Let_def same_live_def split: option.splits prod.splits
        dest!: join_room_store_live)

lemma join_room_invalid:
  "join_identity d = None \<Longrightarrow>
     join_room f now fresh s (Some d) st = (st, [({s}, Error ''Invalid user data'')])"
  by (simp add: join_room_def)

lemma join_room_no_payload:
  "join_room f now fresh s None st = (st, [({s}, Error ''Failed to join room'')])"
  by (simp add: join_room_def)

lemma message_save_live:
  "message_save f m st = (st', r) \<Longrightarrow> same_live st' st"
  by (auto simp: message_save_def Let_def same_live_def split: if_splits)

lemma send_message_store_live:
  "send_message_store f now u c ty st = (st', r) \<Longrightarrow> same_live st' st"
  by (auto simp: send_message_store_def split: prod.splits option.splits if_splits
        dest!: message_save_live)

lemma send_message_live:
  "send_message f now s d st = (st', out) \<Longrightarrow> same_live st' st"
  by (auto simp: send_message_def Let_def same_live_refl
        split: prod.splits option.splits if_splits
        dest!: send_message_store_live)

lemma private_message_store_live:
  "private_message_store f now s u r d st = (st', out) \<Longrightarrow> same_live st' st"
  by (auto simp: private_message_store_def same_live_refl
        split: prod.splits option.splits if_splits
        dest!: message_save_live)

lemma private_message_live:
  "private_message f now s d st = (st', out) \<Longrightarrow> same_live st' st"
  by (auto simp: private_message_def same_live_refl split: prod.splits option.splits if_splits
        dest!: private_message_store_live)

lemma typing_live: "fst (typing_start s st) = st" "fst (typing_stop s st) = st"
  by (simp_all add: typing_start_def typing_stop_def split: option.splits)

subsection \<open>The rooms of the adapter and the sessions\<close>

lemma registry_ok_same_live: "same_live st' st \<Longrightarrow> registry_ok st \<Longrightarrow> registry_ok st'"
  by (simp add: same_live_def registry_ok_def)

lemma registry_ok_init: "registry_ok init"
  by (simp add: registry_ok_def init_def Map_get_def)

lemma registry_ok_connection: "registry_ok st \<Longrightarrow> registry_ok (connection s st)"
  by (auto simp: registry_ok_def connection_def)

lemma registry_ok_join:
  assumes ok: "registry_ok st" and same: "join_same_room p (Map_get (activeUsers st) s)"
  shows "registry_ok (fst (join_room f now fresh s p st))"
proof (cases p)
  case None
  then show ?thesis using ok by (simp add: join_room_no_payload)
next
  case (Some d)
  show ?thesis
  proof (cases "join_identity d")
    case None
    then show ?thesis using ok Some by (simp add: join_room_invalid)
  next
    case (Some t)
    then obtain uid uname rid where t: "join_identity d = Some (uid, uname, rid)"
      by (cases t) auto
    note live = join_room_live [OF t, of f now fresh s st]
    show ?thesis
      unfolding registry_ok_def \<open>p = Some d\<close> live
      using ok same t \<open>p = Some d\<close>
      by (auto simp: registry_ok_def distinct_Map_set Map_get_set join_same_room_def
            split: option.splits)
  qed
qed

lemma registry_ok_disconnect:
  assumes ok: "registry_ok st"
    and fine: "Map_get (activeUsers st) s = None \<or> UserUpdate \<notin> f"
  shows "registry_ok (fst (disconnect f now s st))"
  using ok fine
  by (auto simp: registry_ok_def disconnect_def on_disconnect_def leave_all_def Let_def
        distinct_Map_delete Map_get_delete split: option.splits)

lemma registry_ok_handle:
  "registry_ok st \<Longrightarrow> allowed i st \<Longrightarrow> registry_ok (fst (handle i st))"
proof (cases "in_event i")
  case Connection
  assume "registry_ok st"
  then show ?thesis using Connection by (simp add: handle_def registry_ok_connection)
next
  case (JoinRoom d)
  assume "registry_ok st" "allowed i st"
  then show ?thesis using JoinRoom by (simp add: handle_def allowed_def registry_ok_join)
next
  case (SendMessage d)
  assume ok: "registry_ok st"
  obtain st' out where r: "send_message (in_faults i) (in_time i) (in_socket i) d st = (st', out)"
    by force
  from send_message_live [OF r] ok have "registry_ok st'" by (rule registry_ok_same_live)
  then show ?thesis using SendMessage r by (simp add: handle_def)
next
  case TypingStart
  assume "registry_ok st"
  then show ?thesis using TypingStart by (simp add: handle_def typing_live)
next
  case TypingStop
  assume "registry_ok st"
  then show ?thesis using TypingStop by (simp add: handle_def typing_live)
next
  case (PrivateMsg d)
  assume ok: "registry_ok st"
  obtain st' out where r: "private_message (in_faults i) (in_time i) (in_socket i) d st = (st', out)"
    by force
  from private_message_live [OF r] ok have "registry_ok st'" by (rule registry_ok_same_live)
  then show ?thesis using PrivateMsg r by (simp add: handle_def)
next
  case Disconnect
  assume "registry_ok st" "allowed i st"
  then show ?thesis using Disconnect by (simp add: handle_def allowed_def registry_ok_disconnect)
qed

lemma registry_ok_run:
  "registry_ok st \<Longrightarrow> well_behaved st is \<Longrightarrow> registry_ok (run st is)"
  by (induction "is" arbitrary: st) (auto simp: registry_ok_handle)

lemma sockets_in_rooms_same_live:
  "same_live st' st \<Longrightarrow> sockets_in_rooms st \<Longrightarrow> sockets_in_rooms st'"
  by (simp add: same_live_def sockets_in_rooms_def)

lemma sockets_in_rooms_join:
  assumes "sockets_in_rooms st"
  shows "sockets_in_rooms (fst (join_room f now fresh s p st))"
proof (cases p)
  case None
  then show ?thesis using assms by (simp add: join_room_no_payload)
next
  case (Some d)
  show ?thesis
  proof (cases "join_identity d")
    case None
    then show ?thesis using assms Some by (simp add: join_room_invalid)
  next
    case (Some t)
    then obtain uid uname rid where t: "join_identity d = Some (uid, uname, rid)"
      by (cases t) auto
    show ?thesis
      unfolding sockets_in_rooms_def \<open>p = Some d\<close> join_room_live [OF t]
      using assms by (auto simp: sockets_in_rooms_def Map_get_set)
  qed
qed

lemma sockets_in_rooms_disconnect:
  assumes "sockets_in_rooms st"
    and "Map_get (activeUsers st) s = None \<or> UserUpdate \<notin> f"
  shows "sockets_in_rooms (fst (disconnect f now s st))"
  using assms
  by (auto simp: sockets_in_rooms_def disconnect_def on_disconnect_def leave_all_def Let_def
        Map_get_delete split: option.splits if_splits)

lemma sockets_in_rooms_handle:
  assumes ok: "sockets_in_rooms st" and dc: "disconnect_completes i st"
  shows "sockets_in_rooms (fst (handle i st))"
proof (cases "in_event i")
  case Connection
  then show ?thesis using ok by (fastforce simp: handle_def connection_def sockets_in_rooms_def)
next
  case (JoinRoom d)
  then show ?thesis using ok by (simp add: handle_def sockets_in_rooms_join)
next
  case (SendMessage d)
  obtain st' out where r: "send_message (in_faults i) (in_time i) (in_socket i) d st = (st', out)"
    by force
  from send_message_live [OF r] ok have "sockets_in_rooms st'" by (rule sockets_in_rooms_same_live)
  then show ?thesis using SendMessage r by (simp add: handle_def)
next
  case TypingStart
  then show ?thesis using ok by (simp add: handle_def typing_live)
next
  case TypingStop
  then show ?thesis using ok by (simp add: handle_def typing_live)
next
  case (PrivateMsg d)
  obtain st' out where r: "private_message (in_faults i) (in_time i) (in_socket i) d st = (st', out)"
    by force
  from private_message_live [OF r] ok have "sockets_in_rooms st'" by (rule sockets_in_rooms_same_live)
  then show ?thesis using PrivateMsg r by (simp add: handle_def)
next
  case Disconnect
  then show ?thesis using ok dc
    by (simp add: handle_def disconnect_completes_def sockets_in_rooms_disconnect)
qed

lemma sockets_in_rooms_run:
  "sockets_in_rooms st \<Longrightarrow> disconnects_complete st is \<Longrightarrow> sockets_in_rooms (run st is)"
  by (induction "is" arbitrary: st) (auto simp: sockets_in_rooms_handle)

lemma sender_in_room:
  assumes "disconnects_complete init is"
    and "Map_get (activeUsers (run init is)) s = Some u"
  shows "s \<in> rooms (run init is) (roomId u)"
proof -
  have "sockets_in_rooms init" by (simp add: sockets_in_rooms_def init_def Map_get_def)
  then have "sockets_in_rooms (run init is)" using assms(1) by (rule sockets_in_rooms_run)
  then show ?thesis using assms(2) by (simp add: sockets_in_rooms_def)
qed

subsection \<open>Evaluation of the sample inputs\<close>

lemmas ev = join_room_def join_identity_def join_room_store_def join_find_or_create_def
  join_add_participant_def join_emissions_def room_save_def new_Room_def room_valid_def
  pre_save_def js_trim_def js_space_def js_def recent_messages_def populate_sender_def
  populate_user_def castObjectId_def hex_digit_def lower_hex_def user_upsert_def
  user_offline_def onlineUsers_def init_def connection_def Map_get_def Map_delete_def
  alice_in_def bob_in_def carol_in_def sample_oid_def at_time_def sock1_def sock2_def sock3_def
  handle_def disconnect_def on_disconnect_def leave_all_def allowed_def join_same_room_def
  sessions_in_def own_room_def Let_def

lemma alice_joined_eq:
  "alice_joined =
     \<lparr>connected = {sock1},
      activeUsers = [(sock1, \<lparr>userId = js ''u1'', username = js ''alice'', roomId = js ''A'',
                               joinedAt = 1\<rparr>)],
      rooms = (\<lambda>r. {})(sock1 := {sock1}, js ''A'' := {sock1}),
      users = [\<lparr>u_id = sample_oid 1, u_userId = js ''u1'', u_username = js ''alice'',
                isOnline = True, lastSeen = 1, socketId = Some sock1\<rparr>],
      roomDocs = [js ''A'' \<mapsto> \<lparr>r_roomId = js ''A'', r_name = js ''A'', createdBy = js ''u1'',
                    participants = [js ''u1''], admins = [js ''u1''], maxParticipants = 100\<rparr>],
      messages = []\<rparr>"
  by (simp add: alice_joined_def ev)

lemma both_joined_eq:
  "both_joined =
     \<lparr>connected = {sock2, sock1},
      activeUsers = [(sock1, \<lparr>userId = js ''u1'', username = js ''alice'', roomId = js ''A'',
                               joinedAt = 1\<rparr>),
                     (sock2, \<lparr>userId = js ''u2'', username = js ''bob'', roomId = js ''A'',
                               joinedAt = 2\<rparr>)],
      rooms = (\<lambda>r. {})(sock1 := {sock1}, sock2 := {sock2}, js ''A'' := {sock2, sock1}),
      users = [\<lparr>u_id = sample_oid 1, u_userId = js ''u1'', u_username = js ''alice'',
                isOnline = True, lastSeen = 1, socketId = Some sock1\<rparr>,
               \<lparr>u_id = sample_oid 2, u_userId = js ''u2'', u_username = js ''bob'',
                isOnline = True, lastSeen = 2, socketId = Some sock2\<rparr>],
      roomDocs = [js ''A'' \<mapsto> \<lparr>r_roomId = js ''A'', r_name = js ''A'', createdBy = js ''u1'',
                    participants = [js ''u1'', js ''u2''], admins = [js ''u1''],
                    maxParticipants = 100\<rparr>],
      messages = []\<rparr>"
  by (simp add: both_joined_def alice_joined_eq ev fun_upd_twist)

lemma alice_session:
  "Map_get (activeUsers alice_joined) sock1
     = Some \<lparr>userId = js ''u1'', username = js ''alice'', roomId = js ''A'', joinedAt = 1\<rparr>"
  "Map_get (activeUsers both_joined) sock1
     = Some \<lparr>userId = js ''u1'', username = js ''alice'', roomId = js ''A'', joinedAt = 1\<rparr>"
  by (simp_all add: alice_joined_eq both_joined_eq Map_get_def)


section \<open>The rooms of a connection (join-room, disconnect)\<close>

text \<open>
  Claim C1, as the code has it. For every sequence of events in which no socket that
  holds a session joins another room, and in which no disconnect of a socket with a
  session meets a failing update of the user, the sockets that a broadcast to a room
  reaches are exactly the sockets whose session names that room, together with the
  connected socket whose own id is the name of the room; and a socket is in at most
  one room besides the room of its own id. (A socket that joins a second room is never
  taken out of the first one: \<^verbatim>\<open>join-room\<close> only calls \<^verbatim>\<open>socket.join\<close>.)
\<close>

theorem room_members_are_sessions:
  assumes "well_behaved init is"
  shows "rooms (run init is) rid = sessions_in (run init is) rid \<union> own_room (run init is) rid
         \<and> (s \<in> rooms (run init is) rid \<and> s \<in> rooms (run init is) rid'
              \<and> rid \<noteq> s \<and> rid' \<noteq> s \<longrightarrow> rid = rid')"
proof -
  have ok: "registry_ok (run init is)"
    using registry_ok_init assms by (rule registry_ok_run)
  then have d: "distinct (map fst (activeUsers (run init is)))"
    by (simp add: registry_ok_def)
  have "rooms (run init is) rid = sessions_in (run init is) rid \<union> own_room (run init is) rid"
    using ok in_sessions_in [OF d] by (auto simp: registry_ok_def own_room_def)
  moreover have "s \<in> rooms (run init is) rid \<and> s \<in> rooms (run init is) rid'
      \<and> rid \<noteq> s \<and> rid' \<noteq> s \<longrightarrow> rid = rid'"
    using ok by (auto simp: registry_ok_def)
  ultimately show ?thesis by simp
qed

theorem room_members_are_sessions_witness:
  "well_behaved init two_join_one_leaves
   \<and> rooms (run init two_join_one_leaves) (js ''A'')
       = sessions_in (run init two_join_one_leaves) (js ''A'')
         \<union> own_room (run init two_join_one_leaves) (js ''A'')
   \<and> rooms (run init two_join_one_leaves) (js ''A'') = {sock2}
   \<and> rooms (run init two_join_one_leaves) sock2 = {sock2}
   \<and> sock2 \<notin> rooms (run init two_join_one_leaves) (js ''B'')"
proof -
  have wb: "well_behaved init two_join_one_leaves"
    by (simp add: two_join_one_leaves_def ev)
  have r: "rooms (run init two_join_one_leaves) (js ''A'') = {sock2}"
    by (auto simp: two_join_one_leaves_def ev)
  have o: "rooms (run init two_join_one_leaves) sock2 = {sock2}"
    by (auto simp: two_join_one_leaves_def ev)
  have b: "sock2 \<notin> rooms (run init two_join_one_leaves) (js ''B'')"
    by (simp add: two_join_one_leaves_def ev)
  from room_members_are_sessions [OF wb, of "js ''A''" sock2 "js ''B''"] wb r o b
  show ?thesis by auto
qed

text \<open>
  Socket \<^verbatim>\<open>s1\<close> joins room A and then room B: its session names B, and the socket is
  still in room A, where no session names it any more, as well as in room B and in the
  room of its own id.
\<close>

theorem room_switch_counterexample:
  "rooms (run init alice_switches) (js ''A'') = {sock1}
   \<and> sessions_in (run init alice_switches) (js ''A'') = {}
   \<and> rooms (run init alice_switches) (js ''A'') \<noteq> sessions_in (run init alice_switches) (js ''A'')
   \<and> sock1 \<in> rooms (run init alice_switches) (js ''A'')
   \<and> sock1 \<in> rooms (run init alice_switches) (js ''B'')
   \<and> sock1 \<in> rooms (run init alice_switches) sock1
   \<and> sessions_in (run init alice_switches) sock1 = {}"
  by (simp add: alice_switches_def ev)

section \<open>Private messages to a user who is offline\<close>

text \<open>
  Claim C2, as the code has it. For every private message from a socket with a session
  whose recipient is the user of no session, the sender receives the error
  \<^verbatim>\<open>User is offline\<close> and nothing else happens: the state is the one before, so
  the message is not saved. (The message is saved in the branch that has found the
  socket of the recipient.)
\<close>

theorem private_message_offline:
  assumes "Map_get (activeUsers st) s = Some u"
    and "p_recipientUserId d \<notin> Some ` userId ` snd ` set (activeUsers st)"
  shows "private_message f now s (Some d) st = (st, [({s}, Error ''User is offline'')])"
proof -
  have "find (\<lambda>e. Some (userId (snd e)) = p_recipientUserId d) (activeUsers st) = None"
    using assms(2) by (force simp: find_None_iff image_iff)
  then show ?thesis using assms(1) by (simp add: private_message_def)
qed

theorem private_message_offline_witness:
  "Map_get (activeUsers alice_joined) sock1
     = Some \<lparr>userId = js ''u1'', username = js ''alice'', roomId = js ''A'', joinedAt = 1\<rparr>
   \<and> p_recipientUserId to_carol \<notin> Some ` userId ` snd ` set (activeUsers alice_joined)
   \<and> private_message {} 5 sock1 (Some to_carol) alice_joined
       = (alice_joined, [({sock1}, Error ''User is offline'')])"
proof -
  have r: "p_recipientUserId to_carol \<notin> Some ` userId ` snd ` set (activeUsers alice_joined)"
    by (simp add: alice_joined_eq to_carol_def js_def)
  from private_message_offline [OF alice_session(1) r, of "{}" 5] alice_session(1) r
  show ?thesis by simp
qed

text \<open>
  Alice, alone online, writes to \<^verbatim>\<open>u3\<close>: she receives the error, the collection of
  messages stays empty and the history of the two users is empty.
\<close>

theorem offline_private_message_counterexample:
  "snd (private_message {} 5 sock1 (Some to_carol) alice_joined)
     = [({sock1}, Error ''User is offline'')]
   \<and> messages (fst (private_message {} 5 sock1 (Some to_carol) alice_joined)) = []
   \<and> getPrivateMessages (js ''u1'') (js ''u3'') 50
        (fst (private_message {} 5 sock1 (Some to_carol) alice_joined)) = Some []"
  by (simp add: alice_joined_eq to_carol_def private_message_def Map_get_def
        getPrivateMessages_def populate_sender_def js_def sock1_def)

section \<open>A join that fails after the session is stored\<close>

text \<open>A failing upsert of the user, search of the room or fetch of the messages makes the join fail.\<close>

lemma join_room_throws:
  assumes "join_identity d = Some (uid, uname, rid)"
    and "UserUpsert \<in> f \<or> RoomFind \<in> f \<or> MessageFind \<in> f"
  shows "snd (join_room f now fresh s (Some d) st) = [({s}, Error ''Failed to join room'')]"
  using assms
  by (auto simp: join_room_def join_room_store_def Let_def split: prod.splits option.splits)

text \<open>
  Claim C3, as the code has it. For every join with a valid identity that fails at a
  later step, the error \<^verbatim>\<open>Failed to join room\<close> is emitted to the socket and the
  registration is not rolled back: the session stored for the socket remains, and the
  socket stays in the room.
\<close>

theorem failed_join_not_rolled_back:
  assumes "join_identity d = Some (uid, uname, rid)"
    and "snd (join_room f now fresh s (Some d) st) = [({s}, Error ''Failed to join room'')]"
  shows "Map_get (activeUsers (fst (join_room f now fresh s (Some d) st))) s
           = Some \<lparr>userId = uid, username = uname, roomId = rid, joinedAt = now\<rparr>
         \<and> s \<in> rooms (fst (join_room f now fresh s (Some d) st)) rid"
  by (simp add: join_room_live [OF assms(1)] Map_get_set)

theorem failed_join_not_rolled_back_witness:
  "join_identity (alice_in ''A'') = Some (js ''u1'', js ''alice'', js ''A'')
   \<and> snd (join_room {UserUpsert} 1 (sample_oid 1) sock1 (Some (alice_in ''A'')) (connection sock1 init))
       = [({sock1}, Error ''Failed to join room'')]
   \<and> Map_get (activeUsers (fst (join_room {UserUpsert} 1 (sample_oid 1) sock1
                                  (Some (alice_in ''A'')) (connection sock1 init)))) sock1
       = Some \<lparr>userId = js ''u1'', username = js ''alice'', roomId = js ''A'', joinedAt = 1\<rparr>
   \<and> sock1 \<in> rooms (fst (join_room {UserUpsert} 1 (sample_oid 1) sock1
                            (Some (alice_in ''A'')) (connection sock1 init))) (js ''A'')"
proof -
  have i: "join_identity (alice_in ''A'') = Some (js ''u1'', js ''alice'', js ''A'')"
    by (simp add: join_identity_def alice_in_def js_def)
  have o: "snd (join_room {UserUpsert} 1 (sample_oid 1) sock1 (Some (alice_in ''A'')) (connection sock1 init))
       = [({sock1}, Error ''Failed to join room'')]"
    by (simp add: ev)
  from failed_join_not_rolled_back [OF i o] i o show ?thesis by simp
qed

text \<open>
  A join to a new room whose id has 51 characters fails when the room is saved (its
  name is the id, and a name has at most 50 characters); a join fails as well when the
  search of the room throws. In both cases the session of the socket is there
  afterwards.
\<close>

theorem failed_join_counterexample:
  "snd (join_room {} 1 (sample_oid 1) sock1 (Some (alice_in long_room)) (connection sock1 init))
     = [({sock1}, Error ''Failed to join room'')]
   \<and> Map_get (activeUsers (fst (join_room {} 1 (sample_oid 1) sock1 (Some (alice_in long_room))
                                  (connection sock1 init)))) sock1
       = Some \<lparr>userId = js ''u1'', username = js ''alice'', roomId = js long_room, joinedAt = 1\<rparr>
   \<and> snd (join_room {RoomFind} 1 (sample_oid 1) sock1 (Some (alice_in ''A'')) (connection sock1 init))
       = [({sock1}, Error ''Failed to join room'')]
   \<and> Map_get (activeUsers (fst (join_room {RoomFind} 1 (sample_oid 1) sock1 (Some (alice_in ''A''))
                                  (connection sock1 init)))) sock1
       = Some \<lparr>userId = js ''u1'', username = js ''alice'', roomId = js ''A'', joinedAt = 1\<rparr>"
  by (simp add: long_room_def ev)

section \<open>Sending a message\<close>

text \<open>
  For a send from a socket with a session, a content that is missing, empty or blank
  gets the error \<^verbatim>\<open>Message content cannot be empty\<close> and nothing else, and a content
  of more than 1000 characters that is not blank gets \<^verbatim>\<open>Message too long\<close> and
  nothing else. A content that passes the two checks is handed to the store; when the
  user id of the session is not of the form of an ObjectId, the population of the
  sender throws and the handler ends with \<^verbatim>\<open>Failed to send message\<close>, whatever
  else the store does.
\<close>

lemma js_trim_Nil: "js_trim [] = []"
  by (simp add: js_trim_def)

lemma send_message_refusals:
  assumes "Map_get (activeUsers st) s = Some u"
  shows "((case s_content d of None \<Rightarrow> True | Some x \<Rightarrow> js_trim x = []) \<longrightarrow>
            send_message f now s (Some d) st
              = (st, [({s}, Error ''Message content cannot be empty'')]))
       \<and> (s_content d = Some x \<and> js_trim x \<noteq> [] \<and> length x > 1000 \<longrightarrow>
            send_message f now s (Some d) st = (st, [({s}, Error ''Message too long'')]))"
proof (intro conjI impI)
  assume "case s_content d of None \<Rightarrow> True | Some x \<Rightarrow> js_trim x = []"
  then show "send_message f now s (Some d) st
      = (st, [({s}, Error ''Message content cannot be empty'')])"
    using assms by (cases "s_content d") (simp_all add: send_message_def Let_def)
next
  assume a: "s_content d = Some x \<and> js_trim x \<noteq> [] \<and> length x > 1000"
  then have "x \<noteq> []" using js_trim_Nil by auto
  with a assms show "send_message f now s (Some d) st = (st, [({s}, Error ''Message too long'')])"
    by (simp add: send_message_def Let_def)
qed

lemma send_message_store_uncastable:
  "castObjectId (userId u) = None \<Longrightarrow> snd (send_message_store f now u c ty st) = None"
  by (auto simp: send_message_store_def message_save_def populate_user_def Let_def
        split: prod.splits option.splits if_splits)

lemma send_message_never_broadcast:
  assumes "Map_get (activeUsers st) s = Some u" and "castObjectId (userId u) = None"
    and "s_content d = Some x" "js_trim x \<noteq> []" "length x \<le> 1000"
  shows "snd (send_message f now s (Some d) st) = [({s}, Error ''Failed to send message'')]"
proof -
  from assms(4) have x: "x \<noteq> []" by (auto simp: js_trim_def)
  obtain st' r where r: "send_message_store f now u (js_trim x)
      (case s_type d of None \<Rightarrow> js ''text'' | Some t \<Rightarrow> t) st = (st', r)"
    by force
  have "snd (send_message_store f now u (js_trim x)
      (case s_type d of None \<Rightarrow> js ''text'' | Some t \<Rightarrow> t) st) = None"
    using assms(2) by (rule send_message_store_uncastable)
  with r have "r = None" by simp
  with r assms x show ?thesis by (simp add: send_message_def Let_def)
qed

lemma thousand_facts:
  "length thousand = 1000" "js_trim thousand = thousand" "thousand \<noteq> []"
  "length thousand_one = 1001" "js_trim thousand_one = thousand_one"
  using js_trim_replicate [of 97 1000] js_trim_replicate [of 97 1001]
  by (simp_all add: thousand_def thousand_one_def js_space_def)

text \<open>
  Claim C4, where the code departs from it. Alice, in room A with Bob, sends a content
  of exactly 1000 characters: the message is saved, but the sender of the saved message
  cannot be populated (\<^verbatim>\<open>u1\<close> is no ObjectId), so the handler emits
  \<^verbatim>\<open>Failed to send message\<close> to Alice and nothing is broadcast to the room. A
  message of the type \<^verbatim>\<open>user\<close>, the type that the client of the repository sends,
  is not even saved: the type is not in the enumeration of the schema.
\<close>

theorem send_saved_but_not_broadcast:
  "length thousand = 1000
   \<and> send_message {} 5 sock1 (Some \<lparr>s_content = Some thousand, s_type = None\<rparr>) both_joined
       = (both_joined\<lparr>messages :=
            [\<lparr>messageId = 0, content = thousand, sender = js ''u1'', m_roomId = Some (js ''A''),
              recipient = None, m_type = js ''text'', timestamp = 5, deleted = False\<rparr>]\<rparr>,
          [({sock1}, Error ''Failed to send message'')])
   \<and> send_message {} 5 sock1
        (Some \<lparr>s_content = Some (js ''hello''), s_type = Some (js ''user'')\<rparr>) both_joined
       = (both_joined, [({sock1}, Error ''Failed to send message'')])"
proof -
  have c: "castObjectId (js ''u1'') = None" by (simp add: castObjectId_def js_def)
  have v: "message_valid
      \<lparr>messageId = 0, content = thousand, sender = js ''u1'', m_roomId = Some (js ''A''),
       recipient = None, m_type = js ''text'', timestamp = 5, deleted = False\<rparr>"
    by (simp add: message_valid_def message_types_def present_def thousand_facts js_def)
  have 1: "send_message {} 5 sock1 (Some \<lparr>s_content = Some thousand, s_type = None\<rparr>) both_joined
       = (both_joined\<lparr>messages :=
            [\<lparr>messageId = 0, content = thousand, sender = js ''u1'', m_roomId = Some (js ''A''),
              recipient = None, m_type = js ''text'', timestamp = 5, deleted = False\<rparr>]\<rparr>,
          [({sock1}, Error ''Failed to send message'')])"
    using v c
    by (simp add: send_message_def send_message_store_def message_save_def populate_user_def
          alice_session thousand_facts Let_def)
       (simp add: both_joined_eq)
  have 2: "send_message {} 5 sock1
        (Some \<lparr>s_content = Some (js ''hello''), s_type = Some (js ''user'')\<rparr>) both_joined
       = (both_joined, [({sock1}, Error ''Failed to send message'')])"
    by (simp add: send_message_def send_message_store_def message_save_def alice_session
          message_valid_def message_types_def Let_def)
       (simp add: js_def js_trim_def js_space_def)
  from thousand_facts(1) 1 2 show ?thesis by simp
qed

section \<open>A second join on a socket\<close>

lemma join_room_store_out:
  "join_room_store f now fresh s uid uname rid st = (st', Some out) \<Longrightarrow>
     \<exists>nm ous. last out = ({s}, JoinSuccess rid nm ous)"
  by (auto simp: join_room_store_def join_emissions_def Let_def
        split: prod.splits option.splits if_splits)

text \<open>
  Claim C5, as the code has it. For every socket that holds a session, a second join
  with a valid identity is handled as a first one: the session of the socket is
  replaced by the new one, the socket joins the new room in addition to its rooms, and
  the join ends with \<^verbatim>\<open>join-success\<close> unless a later step fails with
  \<^verbatim>\<open>Failed to join room\<close>.
\<close>

theorem second_join_overwrites:
  assumes "Map_get (activeUsers st) s = Some old"
    and "join_identity d = Some (uid, uname, rid)"
  shows "Map_get (activeUsers (fst (join_room f now fresh s (Some d) st))) s
           = Some \<lparr>userId = uid, username = uname, roomId = rid, joinedAt = now\<rparr>
         \<and> rooms (fst (join_room f now fresh s (Some d) st)) = (rooms st)(rid := insert s (rooms st rid))
         \<and> (snd (join_room f now fresh s (Some d) st) = [({s}, Error ''Failed to join room'')]
            \<or> (\<exists>nm ous. last (snd (join_room f now fresh s (Some d) st))
                          = ({s}, JoinSuccess rid nm ous)))"
proof -
  have "snd (join_room f now fresh s (Some d) st) = [({s}, Error ''Failed to join room'')]
            \<or> (\<exists>nm ous. last (snd (join_room f now fresh s (Some d) st))
                          = ({s}, JoinSuccess rid nm ous))"
    using assms(2)
    by (auto simp: join_room_def Let_def split: prod.splits option.splits
          dest: join_room_store_out)
  then show ?thesis by (simp add: join_room_live [OF assms(2)] Map_get_set)
qed

theorem second_join_overwrites_witness:
  "Map_get (activeUsers alice_joined) sock1
     = Some \<lparr>userId = js ''u1'', username = js ''alice'', roomId = js ''A'', joinedAt = 1\<rparr>
   \<and> join_identity (bob_in ''B'') = Some (js ''u2'', js ''bob'', js ''B'')
   \<and> Map_get (activeUsers (fst (join_room {} 2 (sample_oid 2) sock1 (Some (bob_in ''B'')) alice_joined))) sock1
     = Some \<lparr>userId = js ''u2'', username = js ''bob'', roomId = js ''B'', joinedAt = 2\<rparr>
   \<and> rooms (fst (join_room {} 2 (sample_oid 2) sock1 (Some (bob_in ''B'')) alice_joined)) (js ''A'') = {sock1}
   \<and> rooms (fst (join_room {} 2 (sample_oid 2) sock1 (Some (bob_in ''B'')) alice_joined)) (js ''B'') = {sock1}
   \<and> last (snd (join_room {} 2 (sample_oid 2) sock1 (Some (bob_in ''B'')) alice_joined))
       = ({sock1}, JoinSuccess (js ''B'') (js ''B'') [(js ''u2'', js ''bob'', 2)])"
proof -
  have i: "join_identity (bob_in ''B'') = Some (js ''u2'', js ''bob'', js ''B'')"
    by (simp add: join_identity_def bob_in_def js_def)
  have l: "last (snd (join_room {} 2 (sample_oid 2) sock1 (Some (bob_in ''B'')) alice_joined))
       = ({sock1}, JoinSuccess (js ''B'') (js ''B'') [(js ''u2'', js ''bob'', 2)])"
    by (simp add: alice_joined_eq ev)
  have r: "rooms alice_joined (js ''A'') = {sock1}" "rooms alice_joined (js ''B'') = {}"
    by (simp_all add: alice_joined_eq js_def sock1_def)
  from second_join_overwrites [OF alice_session(1) i, of "{}" 2 "sample_oid 2"] alice_session(1) i l r
  show ?thesis by (simp add: js_def)
qed

text \<open>
  Socket \<^verbatim>\<open>s1\<close>, registered for Alice in room A, joins as Bob in room B: the join
  succeeds and the session of the socket is the one of Bob.
\<close>

theorem second_join_counterexample:
  "Map_get (activeUsers alice_joined) sock1
     = Some \<lparr>userId = js ''u1'', username = js ''alice'', roomId = js ''A'', joinedAt = 1\<rparr>
   \<and> Map_get (activeUsers (fst (join_room {} 2 (sample_oid 2) sock1 (Some (bob_in ''B'')) alice_joined))) sock1
     = Some \<lparr>userId = js ''u2'', username = js ''bob'', roomId = js ''B'', joinedAt = 2\<rparr>
   \<and> snd (join_room {} 2 (sample_oid 2) sock1 (Some (bob_in ''B'')) alice_joined)
     = [({}, UserJoined (js ''u2'') (js ''bob'') (js ''bob joined the chat'')),
        ({sock1}, UsersUpdate [(js ''u2'', js ''bob'', 2)]),
        ({sock1}, JoinSuccess (js ''B'') (js ''B'') [(js ''u2'', js ''bob'', 2)])]"
  by (simp add: alice_joined_eq ev)

section \<open>Disconnecting twice\<close>








section \<open>Typing events\<close>



section \<open>Events on a socket without a session\<close>

text \<open>A private message without a payload is answered with an error, whatever the socket and the state are.\<close>

lemma private_message_no_payload:
  "private_message f now s None st = (st, [({s}, Error ''Failed to send private message'')])"
  by (simp add: private_message_def)

text \<open>
  Claim C10, as the code has it. On a socket without a session, \<^verbatim>\<open>typing-start\<close>,
  \<^verbatim>\<open>typing-stop\<close>, and \<^verbatim>\<open>private-message\<close> with a payload object, emit nothing
  and leave the state as it is.
\<close>

theorem no_session_no_effect:
  assumes "Map_get (activeUsers st) s = None"
  shows "typing_start s st = (st, []) \<and> typing_stop s st = (st, [])
         \<and> private_message f now s (Some d) st = (st, [])"
  using assms by (simp add: typing_start_def typing_stop_def private_message_def)

theorem no_session_no_effect_witness:
  "Map_get (activeUsers alice_joined) sock2 = None
   \<and> typing_start sock2 alice_joined = (alice_joined, [])
   \<and> typing_stop sock2 alice_joined = (alice_joined, [])
   \<and> private_message {} 5 sock2
        (Some \<lparr>p_recipientUserId = Some (js ''u1''), p_content = Some (js ''hello'')\<rparr>) alice_joined
       = (alice_joined, [])"
proof -
  have s: "Map_get (activeUsers alice_joined) sock2 = None"
    by (simp add: alice_joined_eq Map_get_def sock1_def sock2_def js_def)
  from no_session_no_effect [OF s, of "{}" 5
      "\<lparr>p_recipientUserId = Some (js ''u1''), p_content = Some (js ''hello'')\<rparr>"] s
  show ?thesis by simp
qed

text \<open>
  A \<^verbatim>\<open>private-message\<close> event without a payload on socket \<^verbatim>\<open>s2\<close>, which has no
  session: the destructuring throws before the session is looked up, and the socket
  receives an error event.
\<close>

theorem no_payload_counterexample:
  "Map_get (activeUsers alice_joined) sock2 = None
   \<and> private_message {} 5 sock2 None alice_joined
       = (alice_joined, [({sock2}, Error ''Failed to send private message'')])"
  by (simp add: private_message_def alice_joined_eq Map_get_def sock1_def sock2_def js_def)

section \<open>The participants of a room\<close>

text \<open>
  Every save leaves the creator among the participants and the admins, and
  \<^verbatim>\<open>addParticipant\<close> keeps the number of participants within the limit of the room.
\<close>

lemma room_save_creator:
  "room_save r = Some r' \<Longrightarrow>
     createdBy r' \<in> set (participants r') \<and> createdBy r' \<in> set (admins r')"
  by (auto simp: room_save_def pre_save_def Let_def split: if_splits)

lemma mutators_keep_creator:
  assumes "createdBy r \<in> set (participants r)" "createdBy r \<in> set (admins r)"
    and "addParticipant uid r = Some r' \<or> removeParticipant uid r = Some r'
         \<or> addAdmin uid r = Some r' \<or> removeAdmin uid r = Some r'"
  shows "createdBy r' \<in> set (participants r') \<and> createdBy r' \<in> set (admins r')"
  using assms
  by (auto simp: addParticipant_def removeParticipant_def addAdmin_def removeAdmin_def
        split: if_splits dest: room_save_creator)

lemma addParticipant_keeps_limit:
  assumes "createdBy r \<in> set (participants r)"
    and "length (participants r) \<le> maxParticipants r"
    and "addParticipant uid r = Some r'"
  shows "length (participants r') \<le> maxParticipants r'"
  using assms
  by (auto simp: addParticipant_def room_save_def pre_save_def Let_def split: if_splits)

text \<open>
  The join over the socket saves the room with the new participant whatever the limit
  is, so a full room ends over its limit.
\<close>

lemma join_room_ignores_limit:
  assumes room: "roomDocs st (js_trim rid) = Some r" "room_valid r" "r_roomId r = js_trim rid"
    and new: "uid \<notin> set (participants r)"
    and up: "user_upsert fresh uid uname now s (users st) \<noteq> None"
    and d: "join_identity d = Some (uid, uname, rid)"
  shows "roomDocs (fst (join_room {} now fresh s (Some d) st)) (js_trim rid)
           = Some (pre_save (r\<lparr>participants := participants r @ [uid]\<rparr>))"
  using assms
  by (auto simp: join_room_def join_room_store_def join_find_or_create_def
        join_add_participant_def room_save_def room_valid_def pre_save_def Let_def
        split: option.splits)

lemma join_room_overfills:
  assumes room: "roomDocs st (js_trim rid) = Some r" "room_valid r" "r_roomId r = js_trim rid"
    and new: "uid \<notin> set (participants r)"
    and full: "length (participants r) = maxParticipants r"
    and up: "user_upsert fresh uid uname now s (users st) \<noteq> None"
    and d: "join_identity d = Some (uid, uname, rid)"
  shows "\<exists>r'. roomDocs (fst (join_room {} now fresh s (Some d) st)) (js_trim rid) = Some r'
           \<and> maxParticipants r' < length (participants r')"
  using join_room_ignores_limit [OF room new up d] full
  by (auto simp: pre_save_def Let_def)

text \<open>
  Claim C9, where the code departs from it. In a store whose room \<^verbatim>\<open>duo\<close> has two
  participants and a limit of two, \<^verbatim>\<open>addParticipant\<close> refuses a third user, while
  the join of that user over the socket succeeds and leaves the room with three
  participants.
\<close>

theorem join_exceeds_maxParticipants:
  "length (participants room_for_two) = maxParticipants room_for_two
   \<and> addParticipant (js ''u3'') room_for_two = None
   \<and> roomDocs (fst (join_room {} 1 (sample_oid 1) sock3 (Some (carol_in ''duo'')) duo_server)) (js ''duo'')
       = Some (room_for_two\<lparr>participants := [js ''u1'', js ''u2'', js ''u3'']\<rparr>)
   \<and> last (snd (join_room {} 1 (sample_oid 1) sock3 (Some (carol_in ''duo'')) duo_server))
       = ({sock3}, JoinSuccess (js ''duo'') (js ''Duo'') [(js ''u3'', js ''carol'', 1)])"
  by (simp add: room_for_two_def duo_server_def addParticipant_def ev)

section \<open>Properties of the typing indicator\<close>

lemma decimal_digit: "n < 10 \<Longrightarrow> decimal n = [digit_char n]"
  by (simp add: decimal.simps)

text \<open>
  Claim C8. The text of the typing indicator, for the typers in insertion order: one
  typer \<open>x\<close> gives "x is typing..."; two typers give "x and y are typing..."; three
  or more give "x, y and N-2 others are typing...", with \<open>x\<close> and \<open>y\<close> the two
  earliest typers and the number in decimal. In particular Alice, Bob and Carol,
  announced in this order to a client logged in as someone else, give
  "Alice, Bob and 1 others are typing...".
\<close>

theorem typing_display_text:
  "typingText (updateTypingDisplay (app\<lparr>typingUsers := [x]\<rparr>)) = x @ '' is typing...''
   \<and> typingText (updateTypingDisplay (app\<lparr>typingUsers := [x, y]\<rparr>))
       = x @ '' and '' @ y @ '' are typing...''
   \<and> typingText (updateTypingDisplay (app\<lparr>typingUsers := x # y # z # zs\<rparr>))
       = x @ '', '' @ y @ '' and '' @ decimal (length (x # y # z # zs) - 2)
           @ '' others are typing...''
   \<and> indicatorHidden (updateTypingDisplay (app\<lparr>typingUsers := x # xs\<rparr>)) = False
   \<and> typingText
        (handleTypingIndicator ''u3'' ''Carol'' True
          (handleTypingIndicator ''u2'' ''Bob'' True
            (handleTypingIndicator ''u1'' ''Alice'' True
              \<lparr>currentUser = Some ''u0'', typingUsers = [], indicatorHidden = True,
               typingText = []\<rparr>)))
       = ''Alice, Bob and 1 others are typing...''"
proof -
  have one: "typingText (updateTypingDisplay (app\<lparr>typingUsers := [x]\<rparr>)) = x @ '' is typing...''"
    by (simp add: updateTypingDisplay_def)
  have two: "typingText (updateTypingDisplay (app\<lparr>typingUsers := [x, y]\<rparr>))
     = x @ '' and '' @ y @ '' are typing...''"
    by (simp add: updateTypingDisplay_def)
  have many: "typingText (updateTypingDisplay (app\<lparr>typingUsers := x # y # z # zs\<rparr>))
     = x @ '', '' @ y @ '' and '' @ decimal (length (x # y # z # zs) - 2)
         @ '' others are typing...''"
    by (simp add: updateTypingDisplay_def)
  have shown: "indicatorHidden (updateTypingDisplay (app\<lparr>typingUsers := x # xs\<rparr>)) = False"
    by (simp add: updateTypingDisplay_def split: list.splits)
  have d1: "decimal (Suc 0) = ''1''"
    by (simp add: decimal_digit digit_char_def)
  have abc: "typingText
     (handleTypingIndicator ''u3'' ''Carol'' True
       (handleTypingIndicator ''u2'' ''Bob'' True
         (handleTypingIndicator ''u1'' ''Alice'' True
           \<lparr>currentUser = Some ''u0'', typingUsers = [], indicatorHidden = True,
            typingText = []\<rparr>)))
     = ''Alice, Bob and 1 others are typing...''"
    by (simp add: handleTypingIndicator_def updateTypingDisplay_def set_add_def d1)
  from one two many shown abc show ?thesis by (intro conjI)
qed

end
